theory Spec2Isabelle
  imports Main "HOL-Library.Word" "HOL-Library.Monad_Syntax"
begin

unbundle bit_operations_syntax

section \<open>The PE flag patcher of NoDynamicBase.cpp\<close>

text \<open>
  The program reads a whole file into a byte buffer, calls
  \<^verbatim>\<open>fix_pe_clear_dynamic_base(buf, size, &modified, reason)\<close> and writes the buffer back
  when the call reports a modification. This theory embeds that function. The buffer is a
  list of bytes, \<^verbatim>\<open>size\<close> is its length, and every access the function makes through its
  overlay pointers is an explicit load or store at an address relative to the start of the
  buffer. A load or store that leaves the buffer has no defined result in C; the model gives
  it the value \<open>None\<close>, so that a run which stays inside the buffer is a run that returns
  \<open>Some\<close> outcome.
\<close>

subsection \<open>Machine types\<close>

type_synonym u8 = "8 word"      \<comment> \<open>\<^verbatim>\<open>uint8_t\<close>\<close>
type_synonym WORD = "16 word"   \<comment> \<open>\<^verbatim>\<open>WORD\<close>, unsigned 16 bit\<close>
type_synonym DWORD = "32 word"  \<comment> \<open>\<^verbatim>\<open>DWORD\<close>, unsigned 32 bit\<close>
type_synonym LONG = "32 word"   \<comment> \<open>\<^verbatim>\<open>LONG\<close>, signed 32 bit: read with \<open>sint\<close>\<close>
type_synonym size_t = "64 word" \<comment> \<open>\<^verbatim>\<open>size_t\<close> of the x86_64 build named in the file header\<close>

subsection \<open>Structure layouts\<close>

text \<open>
  The source overlays the structures \<^verbatim>\<open>IMAGE_DOS_HEADER\<close>, \<^verbatim>\<open>IMAGE_NT_HEADERS64\<close> and
  \<^verbatim>\<open>IMAGE_NT_HEADERS32\<close> on the buffer. They are declared by the platform header
  \<^verbatim>\<open>windows.h\<close> (winnt.h), which the source includes; their layout is the one the PE
  format fixes. A structure is written here as the list of its members with their sizes
  in bytes, in declaration order (an array member is one entry); these structures are
  packed and none of their members needs padding, so the offset of a member is the sum
  of the sizes before it.
\<close>

type_synonym struct = "(string \<times> nat) list"

fun offsetof :: "struct \<Rightarrow> string \<Rightarrow> nat" where
  "offsetof [] f = 0"
| "offsetof ((g, n) # ms) f = (if g = f then 0 else n + offsetof ms f)"

definition sizeof :: "struct \<Rightarrow> nat" where
  "sizeof s = sum_list (map snd s)"

definition IMAGE_DOS_HEADER :: struct where
  "IMAGE_DOS_HEADER =
    [(''e_magic'', 2), (''e_cblp'', 2), (''e_cp'', 2), (''e_crlc'', 2), (''e_cparhdr'', 2),
     (''e_minalloc'', 2), (''e_maxalloc'', 2), (''e_ss'', 2), (''e_sp'', 2), (''e_csum'', 2),
     (''e_ip'', 2), (''e_cs'', 2), (''e_lfarlc'', 2), (''e_ovno'', 2), (''e_res'', 8),
     (''e_oemid'', 2), (''e_oeminfo'', 2), (''e_res2'', 20), (''e_lfanew'', 4)]"

definition IMAGE_FILE_HEADER :: struct where
  "IMAGE_FILE_HEADER =
    [(''Machine'', 2), (''NumberOfSections'', 2), (''TimeDateStamp'', 4),
     (''PointerToSymbolTable'', 4), (''NumberOfSymbols'', 4),
     (''SizeOfOptionalHeader'', 2), (''Characteristics'', 2)]"

definition IMAGE_OPTIONAL_HEADER32 :: struct where
  "IMAGE_OPTIONAL_HEADER32 =
    [(''Magic'', 2), (''MajorLinkerVersion'', 1), (''MinorLinkerVersion'', 1),
     (''SizeOfCode'', 4), (''SizeOfInitializedData'', 4), (''SizeOfUninitializedData'', 4),
     (''AddressOfEntryPoint'', 4), (''BaseOfCode'', 4), (''BaseOfData'', 4),
     (''ImageBase'', 4), (''SectionAlignment'', 4), (''FileAlignment'', 4),
     (''MajorOperatingSystemVersion'', 2), (''MinorOperatingSystemVersion'', 2),
     (''MajorImageVersion'', 2), (''MinorImageVersion'', 2),
     (''MajorSubsystemVersion'', 2), (''MinorSubsystemVersion'', 2),
     (''Win32VersionValue'', 4), (''SizeOfImage'', 4), (''SizeOfHeaders'', 4),
     (''CheckSum'', 4), (''Subsystem'', 2), (''DllCharacteristics'', 2),
     (''SizeOfStackReserve'', 4), (''SizeOfStackCommit'', 4),
     (''SizeOfHeapReserve'', 4), (''SizeOfHeapCommit'', 4),
     (''LoaderFlags'', 4), (''NumberOfRvaAndSizes'', 4), (''DataDirectory'', 128)]"

definition IMAGE_OPTIONAL_HEADER64 :: struct where
  "IMAGE_OPTIONAL_HEADER64 =
    [(''Magic'', 2), (''MajorLinkerVersion'', 1), (''MinorLinkerVersion'', 1),
     (''SizeOfCode'', 4), (''SizeOfInitializedData'', 4), (''SizeOfUninitializedData'', 4),
     (''AddressOfEntryPoint'', 4), (''BaseOfCode'', 4),
     (''ImageBase'', 8), (''SectionAlignment'', 4), (''FileAlignment'', 4),
     (''MajorOperatingSystemVersion'', 2), (''MinorOperatingSystemVersion'', 2),
     (''MajorImageVersion'', 2), (''MinorImageVersion'', 2),
     (''MajorSubsystemVersion'', 2), (''MinorSubsystemVersion'', 2),
     (''Win32VersionValue'', 4), (''SizeOfImage'', 4), (''SizeOfHeaders'', 4),
     (''CheckSum'', 4), (''Subsystem'', 2), (''DllCharacteristics'', 2),
     (''SizeOfStackReserve'', 8), (''SizeOfStackCommit'', 8),
     (''SizeOfHeapReserve'', 8), (''SizeOfHeapCommit'', 8),
     (''LoaderFlags'', 4), (''NumberOfRvaAndSizes'', 4), (''DataDirectory'', 128)]"

definition IMAGE_NT_HEADERS32 :: struct where
  "IMAGE_NT_HEADERS32 =
    [(''Signature'', 4), (''FileHeader'', sizeof IMAGE_FILE_HEADER),
     (''OptionalHeader'', sizeof IMAGE_OPTIONAL_HEADER32)]"

definition IMAGE_NT_HEADERS64 :: struct where
  "IMAGE_NT_HEADERS64 =
    [(''Signature'', 4), (''FileHeader'', sizeof IMAGE_FILE_HEADER),
     (''OptionalHeader'', sizeof IMAGE_OPTIONAL_HEADER64)]"

subsection \<open>Constants\<close>

definition IMAGE_DLLCHARACTERISTICS_DYNAMIC_BASE :: WORD where
  "IMAGE_DLLCHARACTERISTICS_DYNAMIC_BASE = 0x0040"

definition IMAGE_DOS_SIGNATURE :: WORD where
  "IMAGE_DOS_SIGNATURE = 0x5A4D"    \<comment> \<open>the bytes \<^verbatim>\<open>MZ\<close>, little-endian\<close>

definition IMAGE_NT_SIGNATURE :: DWORD where
  "IMAGE_NT_SIGNATURE = 0x00004550" \<comment> \<open>the bytes \<^verbatim>\<open>PE\0\0\<close>\<close>

definition IMAGE_NT_OPTIONAL_HDR32_MAGIC :: WORD where
  "IMAGE_NT_OPTIONAL_HDR32_MAGIC = 0x10b"

definition IMAGE_NT_OPTIONAL_HDR64_MAGIC :: WORD where
  "IMAGE_NT_OPTIONAL_HDR64_MAGIC = 0x20b"

subsection \<open>Memory accesses\<close>

text \<open>
  An address is an integer offset from the start of the buffer: \<^verbatim>\<open>buf + dos->e_lfanew\<close>
  adds a signed \<^verbatim>\<open>LONG\<close> to the pointer, so the address can be negative. The target is
  little-endian.
\<close>

definition in_bounds :: "u8 list \<Rightarrow> int \<Rightarrow> nat \<Rightarrow> bool" where
  "in_bounds buf a n = (0 \<le> a \<and> a + int n \<le> int (length buf))"

definition load16 :: "u8 list \<Rightarrow> int \<Rightarrow> WORD option" where
  "load16 buf a =
     (if in_bounds buf a 2
      then Some (ucast (buf ! nat a) OR push_bit 8 (ucast (buf ! (nat a + 1))))
      else None)"

definition load32 :: "u8 list \<Rightarrow> int \<Rightarrow> DWORD option" where
  "load32 buf a =
     (if in_bounds buf a 4
      then Some (ucast (buf ! nat a) OR push_bit 8 (ucast (buf ! (nat a + 1)))
                 OR push_bit 16 (ucast (buf ! (nat a + 2)))
                 OR push_bit 24 (ucast (buf ! (nat a + 3))))
      else None)"

definition store16 :: "u8 list \<Rightarrow> int \<Rightarrow> WORD \<Rightarrow> u8 list option" where
  "store16 buf a v =
     (if in_bounds buf a 2
      then Some (buf[nat a := ucast v, nat a + 1 := ucast (drop_bit 8 v)])
      else None)"

subsection \<open>The patch operation\<close>

text \<open>
  What the call leaves behind: the returned \<^verbatim>\<open>bool\<close>, \<^verbatim>\<open>*modified\<close>, the text copied
  into \<^verbatim>\<open>reason\<close> (\<open>None\<close> when the function does not write it) and the buffer.
\<close>

record outcome =
  ret :: bool
  modified :: bool
  reason :: "string option"
  buf :: "u8 list"

definition failure :: "u8 list \<Rightarrow> string \<Rightarrow> outcome" where
  "failure b msg = \<lparr>ret = False, modified = False, reason = Some msg, buf = b\<rparr>"

definition success :: "u8 list \<Rightarrow> bool \<Rightarrow> outcome" where
  "success b m = \<lparr>ret = True, modified = m, reason = None, buf = b\<rparr>"

text \<open>The five reason texts of the source, under the names the specification gives them.\<close>

definition TooSmall :: string where
  "TooSmall = ''file too small''"

definition NotAPEFile :: string where
  "NotAPEFile = ''not a PE file (MZ missing)''"

definition InvalidHeaderOffset :: string where
  "InvalidHeaderOffset = ''invalid e_lfanew''"

definition MissingPESignature :: string where
  "MissingPESignature = ''PE signature missing''"

definition UnknownOptionalHeaderType :: string where
  "UnknownOptionalHeaderType = ''unknown PE optional header type''"

text \<open>
  The addresses of \<^verbatim>\<open>nt->OptionalHeader.Magic\<close> and of
  \<^verbatim>\<open>nt->OptionalHeader.DllCharacteristics\<close> relative to \<^verbatim>\<open>nt\<close>, through
  \<^verbatim>\<open>IMAGE_NT_HEADERS64*\<close> and through \<^verbatim>\<open>IMAGE_NT_HEADERS32*\<close>.
\<close>

definition Magic_offset :: nat where
  "Magic_offset =
     offsetof IMAGE_NT_HEADERS64 ''OptionalHeader'' + offsetof IMAGE_OPTIONAL_HEADER64 ''Magic''"

definition DllCharacteristics_offset64 :: nat where
  "DllCharacteristics_offset64 =
     offsetof IMAGE_NT_HEADERS64 ''OptionalHeader''
       + offsetof IMAGE_OPTIONAL_HEADER64 ''DllCharacteristics''"

definition DllCharacteristics_offset32 :: nat where
  "DllCharacteristics_offset32 =
     offsetof IMAGE_NT_HEADERS32 ''OptionalHeader''
       + offsetof IMAGE_OPTIONAL_HEADER32 ''DllCharacteristics''"

text \<open>
  The two branches of the source that clear the flag differ only in the structure the field
  is reached through; \<open>clear_flag_at\<close> is their common body, at the address \<open>a\<close> of the
  field. \<^verbatim>\<open>old & ~IMAGE_DLLCHARACTERISTICS_DYNAMIC_BASE\<close> is computed in \<^verbatim>\<open>int\<close> and
  truncated to a \<^verbatim>\<open>WORD\<close> by the assignment, which is the 16-bit conjunction.
\<close>

definition clear_flag_at :: "u8 list \<Rightarrow> int \<Rightarrow> outcome option" where
  "clear_flag_at b a = do {
     old \<leftarrow> load16 b a;
     if old AND IMAGE_DLLCHARACTERISTICS_DYNAMIC_BASE \<noteq> 0
     then do {
       b' \<leftarrow> store16 b a (old AND NOT IMAGE_DLLCHARACTERISTICS_DYNAMIC_BASE);
       Some (success b' True)
     }
     else Some (success b False)
   }"

text \<open>
  \<^verbatim>\<open>fix_pe_clear_dynamic_base\<close>, lines 65 to 113. The bounds check of line 79 converts the
  signed \<^verbatim>\<open>e_lfanew\<close> to \<^verbatim>\<open>size_t\<close> (sign extension, \<open>scast\<close>) and adds in \<^verbatim>\<open>size_t\<close>,
  where the sum wraps; \<^verbatim>\<open>size\<close> is the length of the buffer, which a \<^verbatim>\<open>size_t\<close> holds
  without loss.
\<close>

definition fix_pe_clear_dynamic_base :: "u8 list \<Rightarrow> outcome option" where
  "fix_pe_clear_dynamic_base b =
    (if length b < sizeof IMAGE_DOS_HEADER then Some (failure b TooSmall)
     else do {
       e_magic \<leftarrow> load16 b (int (offsetof IMAGE_DOS_HEADER ''e_magic''));
       if e_magic \<noteq> IMAGE_DOS_SIGNATURE then Some (failure b NotAPEFile)
       else do {
         e_lfanew \<leftarrow> load32 b (int (offsetof IMAGE_DOS_HEADER ''e_lfanew''));
         if unat ((scast (e_lfanew :: LONG) :: size_t) + of_nat (sizeof IMAGE_NT_HEADERS64))
              > length b
         then Some (failure b InvalidHeaderOffset)
         else do {
           let nt = sint e_lfanew;
           signature \<leftarrow> load32 b (nt + int (offsetof IMAGE_NT_HEADERS64 ''Signature''));
           if signature \<noteq> IMAGE_NT_SIGNATURE then Some (failure b MissingPESignature)
           else do {
             magic \<leftarrow> load16 b (nt + int Magic_offset);
             if magic = IMAGE_NT_OPTIONAL_HDR64_MAGIC
             then clear_flag_at b (nt + int DllCharacteristics_offset64)
             else if magic = IMAGE_NT_OPTIONAL_HDR32_MAGIC
             then clear_flag_at b (nt + int DllCharacteristics_offset32)
             else Some (failure b UnknownOptionalHeaderType)
           }
         }
       }
     })"

subsection \<open>The field the operation works on, and sample buffers\<close>

text \<open>
  The address of the \<^verbatim>\<open>DllCharacteristics\<close> field in the branch of the source that the
  optional-header magic selects, for an NT header at \<open>e_lfanew\<close>.
\<close>

definition DllCharacteristics_addr :: "LONG \<Rightarrow> WORD \<Rightarrow> int" where
  "DllCharacteristics_addr e_lfanew magic =
     sint e_lfanew + int (if magic = IMAGE_NT_OPTIONAL_HDR64_MAGIC
                          then DllCharacteristics_offset64
                          else DllCharacteristics_offset32)"

text \<open>
  A header-only image: a DOS header that starts with \<^verbatim>\<open>MZ\<close> and whose \<^verbatim>\<open>e_lfanew\<close> is 64,
  then the PE signature, a zeroed file header and an optional header of the 64-bit size
  that is zero except for its magic and the two bytes at offset 70, which hold \<open>dll\<close>:
  328 bytes, the least length the operation accepts for this \<^verbatim>\<open>e_lfanew\<close>.
\<close>

definition synthetic_pe :: "WORD \<Rightarrow> WORD \<Rightarrow> u8 list" where
  "synthetic_pe magic dll =
     [0x4D, 0x5A] @ replicate 58 0 @ [0x40, 0, 0, 0]
     @ [0x50, 0x45, 0, 0] @ replicate 20 0
     @ [ucast magic, ucast (drop_bit 8 magic)] @ replicate 68 0
     @ [ucast dll, ucast (drop_bit 8 dll)] @ replicate 168 0"

text \<open>
  A 64-byte file that starts with \<^verbatim>\<open>MZ\<close> and stores \<^verbatim>\<open>0xFFFFFF00\<close> in \<^verbatim>\<open>e_lfanew\<close>:
  \<open>-256\<close> as a \<^verbatim>\<open>LONG\<close>.
\<close>

definition negative_lfanew :: "u8 list" where
  "negative_lfanew = [0x4D, 0x5A] @ replicate 58 0 @ [0x00, 0xFF, 0xFF, 0xFF]"

text \<open>
  A 264-byte file that starts with \<^verbatim>\<open>MZ\<close>, stores \<^verbatim>\<open>0xFFFFFFDE\<close> in \<^verbatim>\<open>e_lfanew\<close>
  (\<open>-34\<close> as a \<^verbatim>\<open>LONG\<close>) and is zero elsewhere. With this \<^verbatim>\<open>e_lfanew\<close> the address
  \<^verbatim>\<open>e_lfanew + 94\<close> of the field is 60, the address of \<^verbatim>\<open>e_lfanew\<close> itself.
\<close>

definition lfanew_minus34 :: "u8 list" where
  "lfanew_minus34 =
     [0x4D, 0x5A] @ replicate 58 0 @ [0xDE, 0xFF, 0xFF, 0xFF] @ replicate 200 0"

text \<open>Whether a buffer starts with the two bytes \<^verbatim>\<open>MZ\<close>.\<close>

definition starts_with_MZ :: "u8 list \<Rightarrow> bool" where
  "starts_with_MZ b = (take 2 b = [0x4D, 0x5A])"

subsection \<open>Layout facts\<close>

lemma sizeof_IMAGE_DOS_HEADER: "sizeof IMAGE_DOS_HEADER = 64"
  by (simp add: sizeof_def IMAGE_DOS_HEADER_def)

lemma sizeof_IMAGE_NT_HEADERS64: "sizeof IMAGE_NT_HEADERS64 = 264"
  by (simp add: sizeof_def IMAGE_NT_HEADERS64_def IMAGE_FILE_HEADER_def IMAGE_OPTIONAL_HEADER64_def)

lemma offsetof_e_magic: "offsetof IMAGE_DOS_HEADER ''e_magic'' = 0"
  by (simp add: IMAGE_DOS_HEADER_def)

lemma offsetof_e_lfanew: "offsetof IMAGE_DOS_HEADER ''e_lfanew'' = 60"
  by (simp add: IMAGE_DOS_HEADER_def)

lemma offsetof_Signature: "offsetof IMAGE_NT_HEADERS64 ''Signature'' = 0"
  by (simp add: IMAGE_NT_HEADERS64_def)

lemma Magic_offset_eq: "Magic_offset = 24"
  by (simp add: Magic_offset_def IMAGE_NT_HEADERS64_def IMAGE_OPTIONAL_HEADER64_def sizeof_def IMAGE_FILE_HEADER_def)

lemma DllCharacteristics_offset64_eq: "DllCharacteristics_offset64 = 94"
  by (simp add: DllCharacteristics_offset64_def IMAGE_NT_HEADERS64_def IMAGE_OPTIONAL_HEADER64_def sizeof_def IMAGE_FILE_HEADER_def)

lemma DllCharacteristics_offset32_eq: "DllCharacteristics_offset32 = 94"
  by (simp add: DllCharacteristics_offset32_def IMAGE_NT_HEADERS32_def IMAGE_OPTIONAL_HEADER32_def sizeof_def IMAGE_FILE_HEADER_def)

lemmas layout = sizeof_IMAGE_DOS_HEADER sizeof_IMAGE_NT_HEADERS64 offsetof_e_magic
  offsetof_e_lfanew offsetof_Signature Magic_offset_eq DllCharacteristics_offset64_eq
  DllCharacteristics_offset32_eq

subsection \<open>Loads and stores\<close>

lemma le16_roundtrip:
  "ucast (ucast v :: u8) OR push_bit 8 (ucast (ucast (drop_bit 8 v) :: u8)) = (v :: WORD)"
  by (rule bit_word_eqI) (auto simp add: bit_simps)

lemma clear_then_test:
  "(old AND NOT IMAGE_DLLCHARACTERISTICS_DYNAMIC_BASE) AND IMAGE_DLLCHARACTERISTICS_DYNAMIC_BASE
     = (0 :: WORD)"
  by (simp add: and.assoc)

lemma load16_bounds: "load16 b a = Some v \<Longrightarrow> 0 \<le> a \<and> a + 2 \<le> int (length b)"
  by (simp add: load16_def in_bounds_def split: if_splits)

lemma load32_bounds: "load32 b a = Some v \<Longrightarrow> 0 \<le> a \<and> a + 4 \<le> int (length b)"
  by (simp add: load32_def in_bounds_def split: if_splits)

lemma store16_eq:
  "store16 b a v = Some b' \<Longrightarrow>
     0 \<le> a \<and> a + 2 \<le> int (length b) \<and>
     b' = b[nat a := ucast v, nat a + 1 := ucast (drop_bit 8 v)]"
  by (auto simp add: store16_def in_bounds_def split: if_splits)

lemma store16_in_bounds:
  "0 \<le> a \<Longrightarrow> a + 2 \<le> int (length b) \<Longrightarrow>
   store16 b a v = Some (b[nat a := ucast v, nat a + 1 := ucast (drop_bit 8 v)])"
  by (simp add: store16_def in_bounds_def)

lemma load16_update_same:
  assumes "0 \<le> a" "a + 2 \<le> int (length b)"
  shows "load16 (b[nat a := ucast v, nat a + 1 := ucast (drop_bit 8 v)]) a = Some v"
proof -
  from assms have "nat a < length b" "nat a + 1 < length b" by linarith+
  then show ?thesis
    using assms by (simp add: load16_def in_bounds_def le16_roundtrip)
qed

lemma load16_update_other:
  assumes "0 \<le> c" "0 \<le> a" "c + 2 \<le> a \<or> a + 2 \<le> c"
  shows "load16 (b[nat a := x, nat a + 1 := y]) c = load16 b c"
proof -
  from assms have "nat c \<noteq> nat a" "nat c \<noteq> nat a + 1" "nat c + 1 \<noteq> nat a"
    "nat c + 1 \<noteq> nat a + 1" by linarith+
  then show ?thesis
    by (simp add: load16_def in_bounds_def)
qed

lemma load32_update_other:
  assumes "0 \<le> c" "0 \<le> a" "c + 4 \<le> a \<or> a + 2 \<le> c"
  shows "load32 (b[nat a := x, nat a + 1 := y]) c = load32 b c"
proof -
  from assms have "nat c \<noteq> nat a" "nat c \<noteq> nat a + 1" "nat c + 1 \<noteq> nat a"
    "nat c + 1 \<noteq> nat a + 1" "nat c + 2 \<noteq> nat a" "nat c + 2 \<noteq> nat a + 1"
    "nat c + 3 \<noteq> nat a" "nat c + 3 \<noteq> nat a + 1" by linarith+
  then show ?thesis
    by (simp add: load32_def in_bounds_def)
qed

subsection \<open>The operation with the layout evaluated\<close>

lemma fix_unfold:
  "fix_pe_clear_dynamic_base b =
    (if length b < 64 then Some (failure b TooSmall)
     else do {
       e_magic \<leftarrow> load16 b 0;
       if e_magic \<noteq> IMAGE_DOS_SIGNATURE then Some (failure b NotAPEFile)
       else do {
         e_lfanew \<leftarrow> load32 b 60;
         if unat ((scast (e_lfanew :: LONG) :: size_t) + 264) > length b
         then Some (failure b InvalidHeaderOffset)
         else do {
           signature \<leftarrow> load32 b (sint e_lfanew);
           if signature \<noteq> IMAGE_NT_SIGNATURE then Some (failure b MissingPESignature)
           else do {
             magic \<leftarrow> load16 b (sint e_lfanew + 24);
             if magic = IMAGE_NT_OPTIONAL_HDR64_MAGIC
             then clear_flag_at b (sint e_lfanew + 94)
             else if magic = IMAGE_NT_OPTIONAL_HDR32_MAGIC
             then clear_flag_at b (sint e_lfanew + 94)
             else Some (failure b UnknownOptionalHeaderType)
           }
         }
       }
     })"
  unfolding fix_pe_clear_dynamic_base_def layout Let_def
  by (simp cong: if_cong)

lemma clear_flag_at_Some:
  assumes "clear_flag_at b a = Some r"
  shows "\<exists>old. load16 b a = Some old \<and>
           r = success (if old AND IMAGE_DLLCHARACTERISTICS_DYNAMIC_BASE \<noteq> 0
                        then b[nat a := ucast (old AND NOT IMAGE_DLLCHARACTERISTICS_DYNAMIC_BASE),
                               nat a + 1 := ucast (drop_bit 8 (old AND NOT IMAGE_DLLCHARACTERISTICS_DYNAMIC_BASE))]
                        else b)
                       (old AND IMAGE_DLLCHARACTERISTICS_DYNAMIC_BASE \<noteq> 0)"
  using assms unfolding clear_flag_at_def
  by (auto split: Option.bind_splits if_splits dest!: store16_eq)

lemma clear_flag_at_in_bounds:
  assumes "0 \<le> a" "a + 2 \<le> int (length b)"
  shows "\<exists>r. clear_flag_at b a = Some r"
  using assms unfolding clear_flag_at_def
  by (simp add: load16_def in_bounds_def store16_in_bounds)

subsection \<open>The bounds check and the shape of every run\<close>

lemma scast_nonneg:
  fixes e :: LONG
  assumes "0 \<le> sint e"
  shows "unat ((scast e :: size_t) + 264) = nat (sint e) + 264"
proof -
  have lt: "sint e < 2 ^ 31"
    using sint_lt [of e] by simp
  have w: "(scast e :: size_t) + 264 = word_of_int (sint e + 264)"
    by simp
  have "uint (word_of_int (sint e + 264) :: size_t) = take_bit 64 (sint e + 264)"
    by (simp only: uint_word_of_int_eq len_bit0 len_num1 mult_1_right One_nat_def) simp
  also have "\<dots> = sint e + 264"
    using assms lt by (intro take_bit_int_eq_self) simp_all
  finally have "uint ((scast e :: size_t) + 264) = sint e + 264"
    by (simp only: w)
  then have "int (unat ((scast e :: size_t) + 264)) = int (nat (sint e) + 264)"
    using assms by simp
  then show ?thesis
    by (simp only: of_nat_eq_iff)
qed

lemma headers_in_bounds:
  fixes e :: LONG
  assumes "\<not> length b < unat ((scast e :: size_t) + 264)" and "load32 b (sint e) = Some s"
  shows "0 \<le> sint e \<and> sint e + 264 \<le> int (length b)"
proof -
  from assms(2) have nn: "0 \<le> sint e"
    by (simp add: load32_bounds)
  with assms(1) show ?thesis
    by (simp add: scast_nonneg)
qed

lemma outcome_simps [simp]:
  "ret (failure b m) = False" "modified (failure b m) = False"
  "reason (failure b m) = Some m" "buf (failure b m) = b"
  "ret (success b k) = True" "modified (success b k) = k"
  "reason (success b k) = None" "buf (success b k) = b"
  by (simp_all add: failure_def success_def)

lemma clear_flag_at_ret: "clear_flag_at b a = Some r \<Longrightarrow> ret r"
  by (auto dest!: clear_flag_at_Some)

lemma fix_returns_true:
  assumes "fix_pe_clear_dynamic_base b = Some r" and "ret r"
  shows "\<exists>e magic. 64 \<le> length b \<and> load16 b 0 = Some IMAGE_DOS_SIGNATURE \<and>
           load32 b 60 = Some e \<and> 0 \<le> sint e \<and> sint e + 264 \<le> int (length b) \<and>
           \<not> length b < unat ((scast e :: size_t) + 264) \<and>
           load32 b (sint e) = Some IMAGE_NT_SIGNATURE \<and>
           load16 b (sint e + 24) = Some magic \<and>
           (magic = IMAGE_NT_OPTIONAL_HDR64_MAGIC \<or> magic = IMAGE_NT_OPTIONAL_HDR32_MAGIC) \<and>
           clear_flag_at b (sint e + 94) = Some r"
  using assms unfolding fix_unfold
  by (auto split: if_splits Option.bind_splits dest: headers_in_bounds)

lemma fix_returns_false:
  assumes "fix_pe_clear_dynamic_base b = Some r" and "\<not> ret r"
  shows "r = failure b TooSmall \<or> r = failure b NotAPEFile \<or> r = failure b InvalidHeaderOffset
           \<or> r = failure b MissingPESignature \<or> r = failure b UnknownOptionalHeaderType"
  using assms unfolding fix_unfold
  by (auto split: if_splits Option.bind_splits dest: clear_flag_at_ret)

lemma fix_accepts:
  assumes "64 \<le> length b" and "load16 b 0 = Some IMAGE_DOS_SIGNATURE"
    and "load32 b 60 = Some e" and "\<not> length b < unat ((scast e :: size_t) + 264)"
    and "load32 b (sint e) = Some IMAGE_NT_SIGNATURE"
    and "load16 b (sint e + 24) = Some magic"
    and "magic = IMAGE_NT_OPTIONAL_HDR64_MAGIC \<or> magic = IMAGE_NT_OPTIONAL_HDR32_MAGIC"
  shows "fix_pe_clear_dynamic_base b = clear_flag_at b (sint e + 94)"
  using assms unfolding fix_unfold by auto

subsection \<open>The DOS signature as two bytes\<close>

lemma le16_bytes:
  fixes x y :: u8
  shows "ucast (ucast x OR push_bit 8 (ucast y) :: WORD) = x"
    and "ucast (drop_bit 8 (ucast x OR push_bit 8 (ucast y) :: WORD)) = y"
  by (rule bit_word_eqI; auto simp add: bit_simps dest: bit_imp_le_length)+

lemma e_magic_MZ:
  assumes "2 \<le> length b"
  shows "load16 b 0 = Some IMAGE_DOS_SIGNATURE \<longleftrightarrow> starts_with_MZ b"
proof -
  from assms obtain x y zs where b: "b = x # y # zs"
    by (cases b; cases "tl b") auto
  have "ucast x OR push_bit 8 (ucast y) = (0x5A4D :: WORD) \<longleftrightarrow> x = 0x4D \<and> y = 0x5A"
  proof
    assume h: "ucast x OR push_bit 8 (ucast y) = (0x5A4D :: WORD)"
    have "x = ucast (0x5A4D :: WORD)" "y = ucast (drop_bit 8 (0x5A4D :: WORD))"
      using le16_bytes [of x y] by (simp_all only: h)
    then show "x = 0x4D \<and> y = 0x5A" by simp
  next
    assume "x = 0x4D \<and> y = 0x5A"
    then show "ucast x OR push_bit 8 (ucast y) = (0x5A4D :: WORD)" by simp
  qed
  then show ?thesis
    by (simp add: b load16_def in_bounds_def starts_with_MZ_def IMAGE_DOS_SIGNATURE_def)
qed

section \<open>Properties of the patch operation\<close>

subsection \<open>The header checks\<close>

text \<open>
  C7. A buffer shorter than 64 bytes, the size of \<^verbatim>\<open>IMAGE_DOS_HEADER\<close>, is rejected with
  the reason \<open>TooSmall\<close>; the buffer handed back is the one handed in and
  \<^verbatim>\<open>*modified\<close> is false.
\<close>

theorem too_small_rejected:
  assumes "length b < 64"
  shows "fix_pe_clear_dynamic_base b =
           Some \<lparr>ret = False, modified = False, reason = Some TooSmall, buf = b\<rparr>"
  using assms by (simp add: fix_unfold failure_def)

theorem too_small_rejected_witness:
  "length (replicate 10 (0 :: u8)) < 64 \<and>
   fix_pe_clear_dynamic_base (replicate 10 0) =
     Some \<lparr>ret = False, modified = False, reason = Some TooSmall, buf = replicate 10 0\<rparr>"
  using too_small_rejected [of "replicate 10 0"] by simp

text \<open>
  The size check comes first in the source: ten zero bytes do not start with \<^verbatim>\<open>MZ\<close>,
  and the reason they are rejected with is \<open>TooSmall\<close>, not \<open>NotAPEFile\<close>.
\<close>

theorem not_mz_counterexample:
  "\<not> starts_with_MZ (replicate 10 0) \<and>
   fix_pe_clear_dynamic_base (replicate 10 0) =
     Some \<lparr>ret = False, modified = False, reason = Some TooSmall, buf = replicate 10 0\<rparr> \<and>
   TooSmall \<noteq> NotAPEFile"
  by code_simp

text \<open>
  C8, amended. A buffer of at least 64 bytes whose first two bytes are not \<^verbatim>\<open>MZ\<close> is
  rejected with the reason \<open>NotAPEFile\<close>, and is handed back as it was.
\<close>

theorem not_mz_rejected:
  assumes "64 \<le> length b" and "\<not> starts_with_MZ b"
  shows "fix_pe_clear_dynamic_base b =
           Some \<lparr>ret = False, modified = False, reason = Some NotAPEFile, buf = b\<rparr>"
proof -
  from assms(1) have "in_bounds b 0 2"
    by (simp add: in_bounds_def)
  then obtain m where m: "load16 b 0 = Some m"
    by (simp add: load16_def)
  with assms have "m \<noteq> IMAGE_DOS_SIGNATURE"
    using e_magic_MZ [of b] by auto
  with m assms(1) show ?thesis
    by (simp add: fix_unfold failure_def)
qed

theorem not_mz_rejected_witness:
  "64 \<le> length (replicate 64 (0 :: u8)) \<and> \<not> starts_with_MZ (replicate 64 0) \<and>
   fix_pe_clear_dynamic_base (replicate 64 0) =
     Some \<lparr>ret = False, modified = False, reason = Some NotAPEFile, buf = replicate 64 0\<rparr>"
proof -
  have h1: "64 \<le> length (replicate 64 (0 :: u8))" by simp
  have h2: "\<not> starts_with_MZ (replicate 64 0)" by code_simp
  from not_mz_rejected [OF h1 h2] h1 h2 show ?thesis by simp
qed

text \<open>
  C9. Whenever the operation returns false, the buffer is byte for byte the one handed in,
  \<^verbatim>\<open>*modified\<close> is false and the reason is one of the five texts: every failing path
  leaves before the only store of the function.
\<close>

theorem failure_leaves_buffer:
  assumes "fix_pe_clear_dynamic_base b = Some r" and "\<not> ret r"
  shows "buf r = b \<and> \<not> modified r \<and>
         (reason r = Some TooSmall \<or> reason r = Some NotAPEFile \<or>
          reason r = Some InvalidHeaderOffset \<or> reason r = Some MissingPESignature \<or>
          reason r = Some UnknownOptionalHeaderType)"
  using fix_returns_false [OF assms] by auto

theorem failure_leaves_buffer_witness:
  "fix_pe_clear_dynamic_base (synthetic_pe 0x30b 0x0140) =
     Some (failure (synthetic_pe 0x30b 0x0140) UnknownOptionalHeaderType) \<and>
   \<not> ret (failure (synthetic_pe 0x30b 0x0140) UnknownOptionalHeaderType) \<and>
   buf (failure (synthetic_pe 0x30b 0x0140) UnknownOptionalHeaderType) = synthetic_pe 0x30b 0x0140 \<and>
   \<not> modified (failure (synthetic_pe 0x30b 0x0140) UnknownOptionalHeaderType)"
proof -
  have h1: "fix_pe_clear_dynamic_base (synthetic_pe 0x30b 0x0140) =
     Some (failure (synthetic_pe 0x30b 0x0140) UnknownOptionalHeaderType)" by code_simp
  have h2: "\<not> ret (failure (synthetic_pe 0x30b 0x0140) UnknownOptionalHeaderType)" by simp
  from failure_leaves_buffer [OF h1 h2] h1 h2 show ?thesis by simp
qed

subsection \<open>The mutation\<close>

lemma DllCharacteristics_addr_eq: "DllCharacteristics_addr e magic = sint e + 94"
  by (simp add: DllCharacteristics_addr_def layout)

lemma fix_modified:
  assumes "fix_pe_clear_dynamic_base b = Some r" and "modified r"
  shows "\<exists>e magic old. load32 b 60 = Some e \<and> load16 b (sint e + 24) = Some magic \<and>
           0 \<le> sint e \<and> sint e + 264 \<le> int (length b) \<and>
           load16 b (sint e + 94) = Some old \<and>
           buf r = b[nat (sint e + 94) := ucast (old AND NOT IMAGE_DLLCHARACTERISTICS_DYNAMIC_BASE),
                     nat (sint e + 94) + 1 :=
                       ucast (drop_bit 8 (old AND NOT IMAGE_DLLCHARACTERISTICS_DYNAMIC_BASE))]"
proof -
  have "ret r"
  proof (rule ccontr)
    assume "\<not> ret r"
    from fix_returns_false [OF assms(1) this] have "\<not> modified r"
      by auto
    with assms(2) show False by simp
  qed
  from fix_returns_true [OF assms(1) this] obtain e magic
    where e: "load32 b 60 = Some e" "load16 b (sint e + 24) = Some magic"
      "0 \<le> sint e" "sint e + 264 \<le> int (length b)"
      "clear_flag_at b (sint e + 94) = Some r"
    by blast
  from clear_flag_at_Some [OF e(5)] assms(2) e(1-4) show ?thesis
    by (auto split: if_splits)
qed

text \<open>
  C3. Whenever the operation reports a modification, the little-endian 16-bit value at the
  address of \<^verbatim>\<open>DllCharacteristics\<close> (in the layout the magic selects) is, after the call,
  the value \<open>old\<close> that was there before with bit \<^verbatim>\<open>0x0040\<close> cleared: reading the field
  back and testing that bit gives 0.
\<close>

theorem flag_cleared:
  assumes "fix_pe_clear_dynamic_base b = Some r" and "modified r"
  shows "\<exists>e magic old. load32 b 60 = Some e \<and> load16 b (sint e + 24) = Some magic \<and>
           load16 b (DllCharacteristics_addr e magic) = Some old \<and>
           load16 (buf r) (DllCharacteristics_addr e magic) =
             Some (old AND NOT IMAGE_DLLCHARACTERISTICS_DYNAMIC_BASE) \<and>
           (old AND NOT IMAGE_DLLCHARACTERISTICS_DYNAMIC_BASE)
             AND IMAGE_DLLCHARACTERISTICS_DYNAMIC_BASE = 0"
proof -
  from fix_modified [OF assms] obtain e magic old
    where e: "load32 b 60 = Some e" "load16 b (sint e + 24) = Some magic"
      "0 \<le> sint e" "sint e + 264 \<le> int (length b)"
      "load16 b (sint e + 94) = Some old"
      "buf r = b[nat (sint e + 94) := ucast (old AND NOT IMAGE_DLLCHARACTERISTICS_DYNAMIC_BASE),
                 nat (sint e + 94) + 1 :=
                   ucast (drop_bit 8 (old AND NOT IMAGE_DLLCHARACTERISTICS_DYNAMIC_BASE))]"
    by blast
  have "load16 (buf r) (sint e + 94) = Some (old AND NOT IMAGE_DLLCHARACTERISTICS_DYNAMIC_BASE)"
    unfolding e(6) using e(3,4) by (intro load16_update_same) simp_all
  with e(1,2,5) show ?thesis
    by (simp add: DllCharacteristics_addr_eq clear_then_test)
qed

theorem flag_cleared_witness:
  "fix_pe_clear_dynamic_base (synthetic_pe 0x20b 0x0140) =
     Some (success (synthetic_pe 0x20b 0x0100) True) \<and>
   modified (success (synthetic_pe 0x20b 0x0100) True) \<and>
   (\<exists>e magic old. load32 (synthetic_pe 0x20b 0x0140) 60 = Some e \<and>
      load16 (synthetic_pe 0x20b 0x0140) (sint e + 24) = Some magic \<and>
      load16 (synthetic_pe 0x20b 0x0140) (DllCharacteristics_addr e magic) = Some old \<and>
      load16 (buf (success (synthetic_pe 0x20b 0x0100) True)) (DllCharacteristics_addr e magic) =
        Some (old AND NOT IMAGE_DLLCHARACTERISTICS_DYNAMIC_BASE) \<and>
      (old AND NOT IMAGE_DLLCHARACTERISTICS_DYNAMIC_BASE)
        AND IMAGE_DLLCHARACTERISTICS_DYNAMIC_BASE = 0)"
proof -
  have h1: "fix_pe_clear_dynamic_base (synthetic_pe 0x20b 0x0140) =
     Some (success (synthetic_pe 0x20b 0x0100) True)" by code_simp
  have h2: "modified (success (synthetic_pe 0x20b 0x0100) True)" by simp
  from flag_cleared [OF h1 h2] h1 h2 show ?thesis by blast
qed

text \<open>
  C4. Whenever the operation reports a modification, the buffer keeps its length and every
  byte other than the two at the address of \<^verbatim>\<open>DllCharacteristics\<close> is the byte that was
  there before.
\<close>

theorem only_field_bytes_change:
  assumes "fix_pe_clear_dynamic_base b = Some r" and "modified r"
  shows "\<exists>e magic. load32 b 60 = Some e \<and> load16 b (sint e + 24) = Some magic \<and>
           length (buf r) = length b \<and>
           (\<forall>i < length b. int i \<noteq> DllCharacteristics_addr e magic \<and>
                           int i \<noteq> DllCharacteristics_addr e magic + 1 \<longrightarrow>
                           buf r ! i = b ! i)"
proof -
  from fix_modified [OF assms] obtain e magic old
    where e: "load32 b 60 = Some e" "load16 b (sint e + 24) = Some magic"
      "0 \<le> sint e" "sint e + 264 \<le> int (length b)"
      "load16 b (sint e + 94) = Some old"
      "buf r = b[nat (sint e + 94) := ucast (old AND NOT IMAGE_DLLCHARACTERISTICS_DYNAMIC_BASE),
                 nat (sint e + 94) + 1 :=
                   ucast (drop_bit 8 (old AND NOT IMAGE_DLLCHARACTERISTICS_DYNAMIC_BASE))]"
    by blast
  have len: "length (buf r) = length b"
    by (simp add: e(6))
  have "buf r ! i = b ! i"
    if "int i \<noteq> sint e + 94" "int i \<noteq> sint e + 94 + 1" for i
  proof -
    from that e(3) have "i \<noteq> nat (sint e + 94)" "i \<noteq> nat (sint e + 94) + 1"
      by linarith+
    then show ?thesis by (simp add: e(6))
  qed
  with e(1,2) len show ?thesis
    by (auto simp add: DllCharacteristics_addr_eq)
qed

theorem only_field_bytes_change_witness:
  "fix_pe_clear_dynamic_base (synthetic_pe 0x10b 0x0140) =
     Some (success (synthetic_pe 0x10b 0x0100) True) \<and>
   modified (success (synthetic_pe 0x10b 0x0100) True) \<and>
   (\<exists>e magic. load32 (synthetic_pe 0x10b 0x0140) 60 = Some e \<and>
      load16 (synthetic_pe 0x10b 0x0140) (sint e + 24) = Some magic \<and>
      length (buf (success (synthetic_pe 0x10b 0x0100) True)) = length (synthetic_pe 0x10b 0x0140) \<and>
      (\<forall>i < length (synthetic_pe 0x10b 0x0140).
          int i \<noteq> DllCharacteristics_addr e magic \<and>
          int i \<noteq> DllCharacteristics_addr e magic + 1 \<longrightarrow>
          buf (success (synthetic_pe 0x10b 0x0100) True) ! i = synthetic_pe 0x10b 0x0140 ! i))"
proof -
  have h1: "fix_pe_clear_dynamic_base (synthetic_pe 0x10b 0x0140) =
     Some (success (synthetic_pe 0x10b 0x0100) True)" by code_simp
  have h2: "modified (success (synthetic_pe 0x10b 0x0100) True)" by simp
  from only_field_bytes_change [OF h1 h2] h1 h2 show ?thesis by blast
qed

subsection \<open>Running the operation again\<close>

lemma fix_unmodified_again:
  assumes "fix_pe_clear_dynamic_base b = Some r" and "ret r"
  shows "fix_pe_clear_dynamic_base (buf r) = Some (success (buf r) False)"
proof -
  from fix_returns_true [OF assms] obtain e magic
    where e: "64 \<le> length b" "load16 b 0 = Some IMAGE_DOS_SIGNATURE"
      "load32 b 60 = Some e" "0 \<le> sint e" "sint e + 264 \<le> int (length b)"
      "\<not> length b < unat ((scast e :: size_t) + 264)"
      "load32 b (sint e) = Some IMAGE_NT_SIGNATURE"
      "load16 b (sint e + 24) = Some magic"
      "magic = IMAGE_NT_OPTIONAL_HDR64_MAGIC \<or> magic = IMAGE_NT_OPTIONAL_HDR32_MAGIC"
      "clear_flag_at b (sint e + 94) = Some r"
    by blast
  from clear_flag_at_Some [OF e(10)] obtain old
    where old: "load16 b (sint e + 94) = Some old"
      and r: "r = success (if old AND IMAGE_DLLCHARACTERISTICS_DYNAMIC_BASE \<noteq> 0
                then b[nat (sint e + 94) := ucast (old AND NOT IMAGE_DLLCHARACTERISTICS_DYNAMIC_BASE),
                       nat (sint e + 94) + 1 :=
                         ucast (drop_bit 8 (old AND NOT IMAGE_DLLCHARACTERISTICS_DYNAMIC_BASE))]
                else b)
               (old AND IMAGE_DLLCHARACTERISTICS_DYNAMIC_BASE \<noteq> 0)"
    by blast
  show ?thesis
  proof (cases "old AND IMAGE_DLLCHARACTERISTICS_DYNAMIC_BASE \<noteq> 0")
    case False
    with r have "r = success b False" by simp
    with assms(1) show ?thesis by simp
  next
    case True
    define new where "new = old AND NOT IMAGE_DLLCHARACTERISTICS_DYNAMIC_BASE"
    define b' where "b' = b[nat (sint e + 94) := ucast new,
                            nat (sint e + 94) + 1 := ucast (drop_bit 8 new)]"
    from True r have br: "buf r = b'"
      by (simp add: b'_def new_def)
    have len: "length b' = length b"
      by (simp add: b'_def)
    have l1: "load16 b' 0 = Some IMAGE_DOS_SIGNATURE"
      unfolding b'_def using e(2,4) by (subst load16_update_other) simp_all
    have l2: "load32 b' 60 = Some e"
      unfolding b'_def using e(3,4) by (subst load32_update_other) simp_all
    have l3: "load32 b' (sint e) = Some IMAGE_NT_SIGNATURE"
      unfolding b'_def using e(7,4) by (subst load32_update_other) simp_all
    have l4: "load16 b' (sint e + 24) = Some magic"
      unfolding b'_def using e(8,4) by (subst load16_update_other) simp_all
    have l5: "load16 b' (sint e + 94) = Some new"
      unfolding b'_def using e(4,5) by (intro load16_update_same) simp_all
    have "fix_pe_clear_dynamic_base b' = clear_flag_at b' (sint e + 94)"
      using e(1,6,9) l1 l2 l3 l4 len by (intro fix_accepts [where magic = magic]) simp_all
    also have "\<dots> = Some (success b' False)"
      by (simp add: clear_flag_at_def l5 new_def clear_then_test)
    finally show ?thesis
      by (simp add: br)
  qed
qed

text \<open>
  Idempotence on the runs that return. Whenever a first call returns, a second call on the
  buffer it left returns as well, with the same result (true or false) and the same reason,
  leaves every byte of that buffer as it is and reports no modification; so after a first
  call that succeeded, modified or not, the second call reports that no change was needed.
\<close>

theorem patch_idempotent:
  assumes "fix_pe_clear_dynamic_base b = Some r"
  shows "fix_pe_clear_dynamic_base (buf r) =
           Some \<lparr>ret = ret r, modified = False, reason = reason r, buf = buf r\<rparr>"
proof (cases "ret r")
  case True
  from fix_unmodified_again [OF assms True] True
  have "fix_pe_clear_dynamic_base (buf r) = Some (success (buf r) False)" "reason r = None"
    using fix_returns_true [OF assms True] by (auto dest!: clear_flag_at_Some)
  with True show ?thesis
    by (simp add: success_def)
next
  case False
  from fix_returns_false [OF assms False] obtain msg where "r = failure b msg"
    by blast
  with assms show ?thesis
    by (simp add: failure_def)
qed

theorem patch_idempotent_witness:
  "fix_pe_clear_dynamic_base (synthetic_pe 0x20b 0x0140) =
     Some \<lparr>ret = True, modified = True, reason = None, buf = synthetic_pe 0x20b 0x0100\<rparr> \<and>
   fix_pe_clear_dynamic_base (synthetic_pe 0x20b 0x0100) =
     Some \<lparr>ret = True, modified = False, reason = None, buf = synthetic_pe 0x20b 0x0100\<rparr>"
proof -
  have h: "fix_pe_clear_dynamic_base (synthetic_pe 0x20b 0x0140) =
     Some \<lparr>ret = True, modified = True, reason = None, buf = synthetic_pe 0x20b 0x0100\<rparr>"
    by code_simp
  from patch_idempotent [OF h] h show ?thesis by simp
qed

subsection \<open>The two layouts\<close>

text \<open>
  C10. On the header-only PE32+ image (magic \<^verbatim>\<open>0x20B\<close>) whose \<^verbatim>\<open>DllCharacteristics\<close> holds
  \<^verbatim>\<open>0x0140\<close>, the operation succeeds and reports a modification, and the buffer it leaves is
  the same image with \<^verbatim>\<open>0x0100\<close> in the field; on the image that holds \<^verbatim>\<open>0x0100\<close> already
  it succeeds, reports no modification and leaves the buffer as it is.
\<close>

theorem pe32plus_scenarios:
  "load16 (synthetic_pe 0x20b 0x0140) (64 + int DllCharacteristics_offset64) = Some 0x0140 \<and>
   fix_pe_clear_dynamic_base (synthetic_pe 0x20b 0x0140) =
     Some \<lparr>ret = True, modified = True, reason = None, buf = synthetic_pe 0x20b 0x0100\<rparr> \<and>
   load16 (synthetic_pe 0x20b 0x0100) (64 + int DllCharacteristics_offset64) = Some 0x0100 \<and>
   fix_pe_clear_dynamic_base (synthetic_pe 0x20b 0x0100) =
     Some \<lparr>ret = True, modified = False, reason = None, buf = synthetic_pe 0x20b 0x0100\<rparr>"
proof -
  have "load16 (synthetic_pe 0x20b 0x0140) (64 + int DllCharacteristics_offset64) = Some 0x0140"
    by code_simp
  moreover have "fix_pe_clear_dynamic_base (synthetic_pe 0x20b 0x0140) =
     Some \<lparr>ret = True, modified = True, reason = None, buf = synthetic_pe 0x20b 0x0100\<rparr>"
    by code_simp
  moreover have
    "load16 (synthetic_pe 0x20b 0x0100) (64 + int DllCharacteristics_offset64) = Some 0x0100"
    by code_simp
  moreover have "fix_pe_clear_dynamic_base (synthetic_pe 0x20b 0x0100) =
     Some \<lparr>ret = True, modified = False, reason = None, buf = synthetic_pe 0x20b 0x0100\<rparr>"
    by code_simp
  ultimately show ?thesis
    by (simp only: simp_thms)
qed

text \<open>
  In both optional headers \<^verbatim>\<open>DllCharacteristics\<close> is 70 bytes in: the 32-bit layout has
  \<^verbatim>\<open>BaseOfData\<close> and a 4-byte \<^verbatim>\<open>ImageBase\<close> where the 64-bit layout has an 8-byte
  \<^verbatim>\<open>ImageBase\<close>, and the layouts part only after the field. On the header-only PE32 image
  and on the PE32+ image with the same \<^verbatim>\<open>e_lfanew\<close>, both with \<^verbatim>\<open>0x0140\<close> in the field, the
  byte the operation changes is byte 158 in both.
\<close>

theorem same_offset_counterexample:
  "synthetic_pe 0x10b 0x0140 ! 158 = 0x40 \<and>
   fix_pe_clear_dynamic_base (synthetic_pe 0x10b 0x0140) =
     Some (success ((synthetic_pe 0x10b 0x0140)[158 := 0x00]) True) \<and>
   synthetic_pe 0x20b 0x0140 ! 158 = 0x40 \<and>
   fix_pe_clear_dynamic_base (synthetic_pe 0x20b 0x0140) =
     Some (success ((synthetic_pe 0x20b 0x0140)[158 := 0x00]) True) \<and>
   DllCharacteristics_addr 64 IMAGE_NT_OPTIONAL_HDR32_MAGIC =
     DllCharacteristics_addr 64 IMAGE_NT_OPTIONAL_HDR64_MAGIC"
proof -
  have "synthetic_pe 0x10b 0x0140 ! 158 = 0x40 \<and>
    fix_pe_clear_dynamic_base (synthetic_pe 0x10b 0x0140) =
      Some (success ((synthetic_pe 0x10b 0x0140)[158 := 0x00]) True)"
    by code_simp
  moreover have "synthetic_pe 0x20b 0x0140 ! 158 = 0x40 \<and>
    fix_pe_clear_dynamic_base (synthetic_pe 0x20b 0x0140) =
      Some (success ((synthetic_pe 0x20b 0x0140)[158 := 0x00]) True)"
    by code_simp
  ultimately show ?thesis
    by (simp add: DllCharacteristics_addr_eq)
qed

text \<open>
  C1, amended. On every buffer the operation accepts, the optional-header magic is
  \<^verbatim>\<open>0x10B\<close> or \<^verbatim>\<open>0x20B\<close> and in either case the field that is read and cleared is the one
  at \<^verbatim>\<open>e_lfanew + 94\<close>: the address of \<^verbatim>\<open>DllCharacteristics\<close> is the same through
  \<^verbatim>\<open>IMAGE_NT_HEADERS32\<close> and through \<^verbatim>\<open>IMAGE_NT_HEADERS64\<close>.
\<close>

theorem same_field_address:
  assumes "fix_pe_clear_dynamic_base b = Some r" and "ret r"
  shows "\<exists>e magic. load32 b 60 = Some e \<and> load16 b (sint e + 24) = Some magic \<and>
           (magic = IMAGE_NT_OPTIONAL_HDR32_MAGIC \<or> magic = IMAGE_NT_OPTIONAL_HDR64_MAGIC) \<and>
           clear_flag_at b (sint e + 94) = Some r \<and>
           DllCharacteristics_addr e IMAGE_NT_OPTIONAL_HDR32_MAGIC = sint e + 94 \<and>
           DllCharacteristics_addr e IMAGE_NT_OPTIONAL_HDR64_MAGIC = sint e + 94"
  using fix_returns_true [OF assms] by (auto simp add: DllCharacteristics_addr_eq)

theorem same_field_address_witness:
  "fix_pe_clear_dynamic_base (synthetic_pe 0x10b 0x0140) =
     Some (success (synthetic_pe 0x10b 0x0100) True) \<and>
   ret (success (synthetic_pe 0x10b 0x0100) True) \<and>
   (\<exists>e magic. load32 (synthetic_pe 0x10b 0x0140) 60 = Some e \<and>
      load16 (synthetic_pe 0x10b 0x0140) (sint e + 24) = Some magic \<and>
      (magic = IMAGE_NT_OPTIONAL_HDR32_MAGIC \<or> magic = IMAGE_NT_OPTIONAL_HDR64_MAGIC) \<and>
      clear_flag_at (synthetic_pe 0x10b 0x0140) (sint e + 94) =
        Some (success (synthetic_pe 0x10b 0x0100) True) \<and>
      DllCharacteristics_addr e IMAGE_NT_OPTIONAL_HDR32_MAGIC = sint e + 94 \<and>
      DllCharacteristics_addr e IMAGE_NT_OPTIONAL_HDR64_MAGIC = sint e + 94)"
proof -
  have h1: "fix_pe_clear_dynamic_base (synthetic_pe 0x10b 0x0140) =
     Some (success (synthetic_pe 0x10b 0x0100) True)" by code_simp
  have h2: "ret (success (synthetic_pe 0x10b 0x0100) True)" by simp
  from same_field_address [OF h1 h2] h1 h2 show ?thesis by blast
qed

subsection \<open>A non-negative \<^verbatim>\<open>e_lfanew\<close>\<close>

text \<open>
  When the stored \<^verbatim>\<open>e_lfanew\<close> is not negative the check of line 79 does its work: the
  sum does not wrap, every later access is inside the buffer and the operation returns. A
  run can leave the buffer only when \<^verbatim>\<open>e_lfanew\<close> is negative, and for a non-negative
  \<^verbatim>\<open>e_lfanew\<close> the answer \<open>InvalidHeaderOffset\<close> is given exactly when the offset plus 264
  exceeds the length.
\<close>

lemma unat_nonneg_sint:
  fixes e :: LONG
  assumes "0 \<le> sint e"
  shows "unat e = nat (sint e)"
proof -
  have lt: "sint e < 2 ^ 31"
    using sint_lt [of e] by simp
  have "uint e = uint (word_of_int (sint e) :: LONG)"
    by simp
  also have "\<dots> = take_bit 32 (sint e)"
    by (simp only: uint_word_of_int_eq len_bit0 len_num1 mult_1_right One_nat_def) simp
  also have "\<dots> = sint e"
    using assms lt by (intro take_bit_int_eq_self) simp_all
  finally show ?thesis
    by (simp add: unat_eq_nat_uint)
qed

lemma fault_only_negative_lfanew:
  assumes "fix_pe_clear_dynamic_base b = None"
  shows "\<exists>e. load32 b 60 = Some e \<and> sint e < 0"
proof (rule ccontr)
  assume neg: "\<not> (\<exists>e. load32 b 60 = Some e \<and> sint e < 0)"
  have len: "64 \<le> length b"
    using assms by (auto simp add: fix_unfold split: if_splits)
  then obtain m e where m: "load16 b 0 = Some m" and e: "load32 b 60 = Some e"
    by (simp add: load16_def load32_def in_bounds_def)
  with neg have nn: "0 \<le> sint e"
    by auto
  show False
  proof (cases "length b < unat ((scast e :: size_t) + 264)")
    case True
    with assms m e len show False
      by (simp add: fix_unfold split: if_splits)
  next
    case False
    with nn have bound: "sint e + 264 \<le> int (length b)"
      by (simp add: scast_nonneg)
    with nn obtain s g where s: "load32 b (sint e) = Some s"
      and g: "load16 b (sint e + 24) = Some g"
      by (simp add: load16_def load32_def in_bounds_def)
    from nn bound obtain r where r: "clear_flag_at b (sint e + 94) = Some r"
      using clear_flag_at_in_bounds [of "sint e + 94" b] by auto
    from assms m e len False s g r show False
      by (simp add: fix_unfold split: if_splits)
  qed
qed

lemma reasons_distinct:
  "InvalidHeaderOffset \<noteq> MissingPESignature" "InvalidHeaderOffset \<noteq> UnknownOptionalHeaderType"
  "MissingPESignature \<noteq> InvalidHeaderOffset" "UnknownOptionalHeaderType \<noteq> InvalidHeaderOffset"
  by (simp_all add: InvalidHeaderOffset_def MissingPESignature_def UnknownOptionalHeaderType_def)

lemma invalid_header_offset_nonneg:
  assumes "64 \<le> length b" and "starts_with_MZ b" and "load32 b 60 = Some e" and "0 \<le> sint e"
  shows "fix_pe_clear_dynamic_base b = Some (failure b InvalidHeaderOffset)
           \<longleftrightarrow> length b < unat e + 264"
proof -
  from assms(1,2) have m: "load16 b 0 = Some IMAGE_DOS_SIGNATURE"
    using e_magic_MZ [of b] by simp
  have chk: "unat ((scast e :: size_t) + 264) = unat e + 264"
    using assms(4) by (simp add: scast_nonneg unat_nonneg_sint)
  show ?thesis
  proof (cases "length b < unat e + 264")
    case True
    with assms(1,3) m chk show ?thesis
      by (simp add: fix_unfold)
  next
    case False
    have "fix_pe_clear_dynamic_base b \<noteq> Some (failure b InvalidHeaderOffset)"
    proof
      assume h: "fix_pe_clear_dynamic_base b = Some (failure b InvalidHeaderOffset)"
      with assms(1,3) m chk False show False
        by (auto simp add: fix_unfold failure_def reasons_distinct
            split: if_splits Option.bind_splits dest!: clear_flag_at_ret)
    qed
    with False show ?thesis by simp
  qed
qed

text \<open>
  So the operation returns, and is idempotent, on every buffer whose stored \<^verbatim>\<open>e_lfanew\<close>
  is not negative, and on every buffer too short to hold one.
\<close>

lemma returns_unless_negative_lfanew:
  assumes "\<not> (\<exists>e. load32 b 60 = Some e \<and> sint e < 0)"
  shows "\<exists>r. fix_pe_clear_dynamic_base b = Some r \<and>
           fix_pe_clear_dynamic_base (buf r) =
             Some \<lparr>ret = ret r, modified = False, reason = reason r, buf = buf r\<rparr>"
proof -
  from assms fault_only_negative_lfanew [of b]
  obtain r where r: "fix_pe_clear_dynamic_base b = Some r"
    by (cases "fix_pe_clear_dynamic_base b") auto
  from patch_idempotent [OF r] r show ?thesis
    by blast
qed

subsection \<open>A negative \<^verbatim>\<open>e_lfanew\<close>\<close>

text \<open>
  C2, at a failing input. The 64-byte file \<open>negative_lfanew\<close> stores \<open>-256\<close> in
  \<^verbatim>\<open>e_lfanew\<close>. Sign-extended to \<^verbatim>\<open>size_t\<close> and added to 264, it wraps to 8, which does not
  exceed 64, so the check of line 79 lets it pass; \<^verbatim>\<open>nt\<close> then points 256 bytes before the
  buffer and the read of \<^verbatim>\<open>nt->Signature\<close> on line 85 is outside it.
\<close>

theorem negative_lfanew_out_of_bounds:
  "length negative_lfanew = 64 \<and>
   load32 negative_lfanew 60 = Some 0xFFFFFF00 \<and>
   sint (0xFFFFFF00 :: LONG) = - 256 \<and>
   unat ((scast (0xFFFFFF00 :: LONG) :: size_t) + 264) = 8 \<and>
   load32 negative_lfanew (- 256) = None \<and>
   fix_pe_clear_dynamic_base negative_lfanew = None"
proof -
  have "length negative_lfanew = 64 \<and> load32 negative_lfanew 60 = Some 0xFFFFFF00 \<and>
    load32 negative_lfanew (- 256) = None \<and> fix_pe_clear_dynamic_base negative_lfanew = None"
    by code_simp
  moreover have "sint (0xFFFFFF00 :: LONG) = - 256"
    by simp
  moreover have "unat ((scast (0xFFFFFF00 :: LONG) :: size_t) + 264) = 8"
    by simp
  ultimately show ?thesis
    by simp
qed

text \<open>
  C6, at the same input. Read as an unsigned 32-bit integer the stored \<^verbatim>\<open>e_lfanew\<close> is
  4294967040, which with 264 added exceeds the length 64 of a buffer that starts with
  \<^verbatim>\<open>MZ\<close>; the operation does not answer \<open>InvalidHeaderOffset\<close>.
\<close>

theorem negative_lfanew_not_rejected:
  "64 \<le> length negative_lfanew \<and> starts_with_MZ negative_lfanew \<and>
   load32 negative_lfanew 60 = Some 0xFFFFFF00 \<and>
   length negative_lfanew < unat (0xFFFFFF00 :: DWORD) + 264 \<and>
   fix_pe_clear_dynamic_base negative_lfanew \<noteq>
     Some \<lparr>ret = False, modified = False, reason = Some InvalidHeaderOffset,
           buf = negative_lfanew\<rparr>"
proof -
  have "length negative_lfanew = 64 \<and> starts_with_MZ negative_lfanew \<and>
    load32 negative_lfanew 60 = Some 0xFFFFFF00 \<and> fix_pe_clear_dynamic_base negative_lfanew = None"
    by code_simp
  moreover have "(64 :: nat) < unat (0xFFFFFF00 :: DWORD) + 264"
    by simp
  ultimately show ?thesis
    by simp
qed

text \<open>
  C5, at a failing input. On \<open>lfanew_minus34\<close> the stored \<^verbatim>\<open>e_lfanew\<close> is \<open>-34\<close>; the sum
  of line 79 wraps to 230, which does not exceed the length 264, so the check passes, and the
  reads of \<^verbatim>\<open>nt->Signature\<close> and of the magic are before the buffer: the first call has
  no outcome that a second call could repeat. The field the call goes on to clear, at
  \<^verbatim>\<open>e_lfanew + 94\<close>, is the low half of \<^verbatim>\<open>e_lfanew\<close> itself; it holds \<^verbatim>\<open>0xFFDE\<close>, with the
  flag bit set, and clearing the bit makes the stored \<^verbatim>\<open>e_lfanew\<close> \<open>-98\<close>, so that a second
  call looks for the NT header at another place than the first.
\<close>

theorem lfanew_minus34_no_outcome:
  "length lfanew_minus34 = 264 \<and> starts_with_MZ lfanew_minus34 \<and>
   load32 lfanew_minus34 60 = Some 0xFFFFFFDE \<and>
   sint (0xFFFFFFDE :: LONG) = - 34 \<and>
   unat ((scast (0xFFFFFFDE :: LONG) :: size_t) + 264) = 230 \<and>
   load32 lfanew_minus34 (- 34) = None \<and>
   fix_pe_clear_dynamic_base lfanew_minus34 = None \<and>
   DllCharacteristics_addr 0xFFFFFFDE IMAGE_NT_OPTIONAL_HDR64_MAGIC = 60 \<and>
   DllCharacteristics_addr 0xFFFFFFDE IMAGE_NT_OPTIONAL_HDR32_MAGIC = 60 \<and>
   load16 lfanew_minus34 60 = Some 0xFFDE \<and>
   (0xFFDE :: WORD) AND IMAGE_DLLCHARACTERISTICS_DYNAMIC_BASE \<noteq> 0 \<and>
   (0xFFDE :: WORD) AND NOT IMAGE_DLLCHARACTERISTICS_DYNAMIC_BASE = 0xFF9E \<and>
   store16 lfanew_minus34 60 0xFF9E \<bind> (\<lambda>b'. load32 b' 60) = Some 0xFFFFFF9E \<and>
   sint (0xFFFFFF9E :: LONG) = - 98"
proof -
  have "length lfanew_minus34 = 264 \<and> starts_with_MZ lfanew_minus34 \<and>
    load32 lfanew_minus34 60 = Some 0xFFFFFFDE \<and> load32 lfanew_minus34 (- 34) = None \<and>
    fix_pe_clear_dynamic_base lfanew_minus34 = None \<and>
    load16 lfanew_minus34 60 = Some 0xFFDE"
    by code_simp
  moreover have "store16 lfanew_minus34 60 0xFF9E \<bind> (\<lambda>b'. load32 b' 60) = Some 0xFFFFFF9E"
    by code_simp
  moreover have "sint (0xFFFFFFDE :: LONG) = - 34" "sint (0xFFFFFF9E :: LONG) = - 98"
    by simp_all
  moreover have "unat ((scast (0xFFFFFFDE :: LONG) :: size_t) + 264) = 230"
    by simp
  moreover have "(0xFFDE :: WORD) AND IMAGE_DLLCHARACTERISTICS_DYNAMIC_BASE \<noteq> 0"
    "(0xFFDE :: WORD) AND NOT IMAGE_DLLCHARACTERISTICS_DYNAMIC_BASE = 0xFF9E"
    by (simp_all add: IMAGE_DLLCHARACTERISTICS_DYNAMIC_BASE_def)
  moreover have "DllCharacteristics_addr 0xFFFFFFDE IMAGE_NT_OPTIONAL_HDR64_MAGIC = 60"
    "DllCharacteristics_addr 0xFFFFFFDE IMAGE_NT_OPTIONAL_HDR32_MAGIC = 60"
    by (simp_all add: DllCharacteristics_addr_eq)
  ultimately show ?thesis
    by (simp only: simp_thms)
qed

end
